theory Spec2Isabelle
  imports Main
begin

section \<open>JavaScript values of the host configuration\<close>

text \<open>
  The adapter reads an untyped configuration graph (\<^verbatim>\<open>options: any\<close>, the host's
  \<^verbatim>\<open>serverless\<close> object). Its values are modelled as a datatype: the primitives whose
  truthiness the code branches on, and objects as association lists of own properties.
  \<open>JNum\<close> carries the integer-valued numbers (printed in plain decimal), \<open>JNaN\<close> the
  not-a-number value.
\<close>

datatype jsval =
    JUndefined
  | JNull
  | JBool bool
  | JNum int
  | JNaN
  | JStr string
  | JObj "(string \<times> jsval) list"

text \<open>ToBoolean: what \<^verbatim>\<open>x ? a : b\<close>, \<^verbatim>\<open>x || y\<close>, \<^verbatim>\<open>x && y\<close> and \<^verbatim>\<open>!x\<close> test.\<close>

fun truthy :: "jsval \<Rightarrow> bool" where
  "truthy JUndefined = False"
| "truthy JNull = False"
| "truthy (JBool b) = b"
| "truthy (JNum n) = (n \<noteq> 0)"
| "truthy JNaN = False"
| "truthy (JStr s) = (s \<noteq> [])"
| "truthy (JObj kvs) = True"

text \<open>\<^verbatim>\<open>x == null\<close>: true of \<^verbatim>\<open>undefined\<close> and \<^verbatim>\<open>null\<close> only.\<close>

fun nullish :: "jsval \<Rightarrow> bool" where
  "nullish JUndefined = True"
| "nullish JNull = True"
| "nullish v = False"

text \<open>
  \<^verbatim>\<open>v[k]\<close> for a value that is not nullish. An object yields its own property or
  \<^verbatim>\<open>undefined\<close>; a primitive has none of the property names this adapter reads
  (\<^verbatim>\<open>stage\<close>, \<^verbatim>\<open>name\<close>, \<^verbatim>\<open>package\<close>, ...), so it yields \<^verbatim>\<open>undefined\<close>.
\<close>

fun js_prop :: "jsval \<Rightarrow> string \<Rightarrow> jsval" where
  "js_prop (JObj kvs) k = (case map_of kvs k of Some v \<Rightarrow> v | None \<Rightarrow> JUndefined)"
| "js_prop v k = JUndefined"

datatype error =
    TypeError
  | Error string
  | External string

text \<open>
  \<^verbatim>\<open>v.k\<close> as the code writes it: reading a property of \<^verbatim>\<open>undefined\<close> or \<^verbatim>\<open>null\<close>
  throws a TypeError. \<open>Error m\<close> is \<^verbatim>\<open>new Error(m)\<close> thrown by the adapter itself;
  \<open>External m\<close> is whatever the host framework, the toolkit or the SDK throws or rejects
  with.
\<close>

definition js_member :: "jsval \<Rightarrow> string \<Rightarrow> error + jsval" where
  "js_member v k = (if nullish v then Inl TypeError else Inr (js_prop v k))"

definition bindE :: "error + 'a \<Rightarrow> ('a \<Rightarrow> error + 'b) \<Rightarrow> error + 'b" where
  "bindE m f = (case m of Inl e \<Rightarrow> Inl e | Inr a \<Rightarrow> f a)"

text \<open>The \<^verbatim>\<open>||\<close> operator on values: the left operand when truthy, else the right.\<close>

definition js_or :: "jsval \<Rightarrow> jsval \<Rightarrow> jsval" where
  "js_or a b = (if truthy a then a else b)"

subsection \<open>Strings: split, join, ToString\<close>

text \<open>
  \<^verbatim>\<open>s.split(sep)\<close> for a one-character separator: the pieces between the separators,
  \<^verbatim>\<open>[""]\<close> for the empty string.
\<close>

fun split_on :: "char \<Rightarrow> string \<Rightarrow> string list" where
  "split_on sep [] = [[]]"
| "split_on sep (c # cs) =
     (if c = sep then [] # split_on sep cs
      else (case split_on sep cs of
              [] \<Rightarrow> [[c]]
            | w # ws \<Rightarrow> (c # w) # ws))"

text \<open>\<^verbatim>\<open>Array.prototype.join\<close> with a one-character separator.\<close>

fun join :: "char \<Rightarrow> string list \<Rightarrow> string" where
  "join sep [] = []"
| "join sep [x] = x"
| "join sep (x # y # ys) = x @ sep # join sep (y # ys)"

fun digits :: "nat \<Rightarrow> string" where
  "digits n =
     (if n < 10 then [char_of (48 + n)]
      else digits (n div 10) @ [char_of (48 + n mod 10)])"

declare digits.simps [simp del]

text \<open>ToString, as a template literal applies it to each substitution.\<close>

fun js_toString :: "jsval \<Rightarrow> string" where
  "js_toString JUndefined = ''undefined''"
| "js_toString JNull = ''null''"
| "js_toString (JBool b) = (if b then ''true'' else ''false'')"
| "js_toString (JNum n) = (if n < 0 then CHR ''-'' # digits (nat (- n)) else digits (nat n))"
| "js_toString JNaN = ''NaN''"
| "js_toString (JStr s) = s"
| "js_toString (JObj kvs) = ''[object Object]''"

subsection \<open>lodash: get\<close>

text \<open>
  \<^verbatim>\<open>_.get(object, path)\<close> with a string path. lodash turns the string into a key list
  (for the bracket-free paths used here: it splits at the dots) and walks it, stopping
  with \<^verbatim>\<open>undefined\<close> as soon as the current object is nullish.
\<close>

definition stringToPath :: "string \<Rightarrow> string list" where
  "stringToPath p = (if p = [] then [] else split_on CHR ''.'' p)"

fun baseGet_loop :: "jsval \<Rightarrow> string list \<Rightarrow> jsval" where
  "baseGet_loop object [] = object"
| "baseGet_loop object (k # ks) =
     (if nullish object then JUndefined else baseGet_loop (js_prop object k) ks)"

definition baseGet :: "jsval \<Rightarrow> string list \<Rightarrow> jsval" where
  "baseGet object p = (if p = [] then JUndefined else baseGet_loop object p)"

definition lodash_get :: "jsval \<Rightarrow> string \<Rightarrow> jsval" where
  "lodash_get object p = (if nullish object then JUndefined else baseGet object (stringToPath p))"

section \<open>The provider adapter\<close>

text \<open>
  The fields of \<^verbatim>\<open>class AwsCdkProvider\<close>. \<open>sdkProvider\<close> is \<open>None\<close> until the first
  \<^verbatim>\<open>getSdkProvider\<close> (the field is declared without an initialiser); \<open>'p\<close> is the
  toolkit's type of SDK-provider handles.
\<close>

record 'p AwsCdkProvider =
  options :: jsval
  serverless :: jsval
  tsCompiled :: bool
  sdkProvider :: "'p option"

text \<open>
  The adapter as the object \<^verbatim>\<open>_.get(this, ...)\<close> walks: the two properties the paths
  start from.
\<close>

definition this_object :: "'p AwsCdkProvider \<Rightarrow> jsval" where
  "this_object this = JObj [(''options'', options this), (''serverless'', serverless this)]"

record path_value =
  path :: "string list"
  val :: jsval

definition getValues :: "jsval \<Rightarrow> string list list \<Rightarrow> path_value list" where
  "getValues source paths =
     map (\<lambda>p. \<lparr>path = p, val = lodash_get source (join CHR ''.'' p)\<rparr>) paths"

text \<open>\<^verbatim>\<open>values.reduce(f, init)\<close> is a left fold from \<open>init\<close>.\<close>

definition firstValue :: "path_value list \<Rightarrow> path_value" where
  "firstValue values =
     foldl (\<lambda>result current. if truthy (val result) then result else current)
       \<lparr>path = [], val = JUndefined\<rparr> values"

definition getStageSourceValue :: "'p AwsCdkProvider \<Rightarrow> path_value" where
  "getStageSourceValue this =
     firstValue (getValues (this_object this)
       [[''options'', ''stage''],
        [''serverless'', ''config'', ''stage''],
        [''serverless'', ''service'', ''provider'', ''stage'']])"

definition getStage :: "'p AwsCdkProvider \<Rightarrow> jsval" where
  "getStage this =
     (let defaultStage = JStr ''dev'';
          stageSourceValue = getStageSourceValue this
      in js_or (val stageSourceValue) defaultStage)"

definition getRegionSourceValue :: "'p AwsCdkProvider \<Rightarrow> path_value" where
  "getRegionSourceValue this =
     firstValue (getValues (this_object this)
       [[''options'', ''region''],
        [''serverless'', ''config'', ''region''],
        [''serverless'', ''service'', ''provider'', ''region'']])"

definition getRegion :: "'p AwsCdkProvider \<Rightarrow> jsval" where
  "getRegion this =
     (let defaultRegion = JStr ''us-east-1'';
          regionSourceValue = getRegionSourceValue this
      in js_or (val regionSourceValue) defaultRegion)"

text \<open>
  \<^verbatim>\<open>firstVal ? firstVal.value : null\<close> tests an object reference, and every object is
  truthy.
\<close>

definition object_truthy :: "path_value \<Rightarrow> bool" where
  "object_truthy pv = True"

definition getProfileSourceValue :: "'p AwsCdkProvider \<Rightarrow> jsval" where
  "getProfileSourceValue this =
     (let values = getValues (this_object this)
            [[''options'', ''aws-profile''],
             [''options'', ''profile''],
             [''serverless'', ''config'', ''profile''],
             [''serverless'', ''service'', ''provider'', ''profile'']];
          firstVal = firstValue values
      in if object_truthy firstVal then val firstVal else JNull)"

definition getProfile :: "'p AwsCdkProvider \<Rightarrow> jsval" where
  "getProfile this = getProfileSourceValue this"

definition js_and :: "jsval \<Rightarrow> jsval \<Rightarrow> jsval" where
  "js_and a b = (if truthy a then b else a)"

text \<open>
  The template literal \<^verbatim>\<open>`${service}-${stage}`\<close> is evaluated only when the override
  is not truthy, and reads \<^verbatim>\<open>this.serverless.service\<close> a second time.
\<close>

definition getStackName :: "'p AwsCdkProvider \<Rightarrow> error + jsval" where
  "getStackName this =
     bindE (js_member (serverless this) ''service'') (\<lambda>service.
     bindE (js_member service ''provider'') (\<lambda>provider.
     bindE (js_member provider ''stackName'') (\<lambda>stackName.
       if truthy stackName then Inr stackName
       else
         bindE (js_member (serverless this) ''service'') (\<lambda>service'.
         bindE (js_member service' ''service'') (\<lambda>serviceName.
           Inr (JStr (js_toString serviceName @ ''-'' @ js_toString (getStage this))))))))"

definition getCfnRoleArn :: "'p AwsCdkProvider \<Rightarrow> error + jsval" where
  "getCfnRoleArn this =
     bindE (js_member (serverless this) ''service'') (\<lambda>service.
     bindE (js_member service ''provider'') (\<lambda>provider.
     bindE (js_member provider ''cfnRole'') (\<lambda>cfnRole.
       Inr (js_or cfnRole JUndefined))))"

definition getDeploymentBucketName :: "'p AwsCdkProvider \<Rightarrow> error + jsval" where
  "getDeploymentBucketName this =
     bindE (js_member (serverless this) ''service'') (\<lambda>service.
     bindE (js_member service ''provider'') (\<lambda>provider.
     bindE (js_member provider ''deploymentBucket'') (\<lambda>deploymentBucketConfig.
       if truthy (js_and deploymentBucketConfig (js_prop deploymentBucketConfig ''name''))
       then Inr (js_prop deploymentBucketConfig ''name'')
       else Inr JUndefined)))"

subsection \<open>String sanitisers\<close>

text \<open>
  A string is the list of its code units. Both character classes hold ASCII characters
  only, so every other unit lies outside them.
\<close>

definition in_range :: "char \<Rightarrow> char \<Rightarrow> char \<Rightarrow> bool" where
  "in_range lo hi c \<longleftrightarrow> (of_char lo :: nat) \<le> of_char c \<and> (of_char c :: nat) \<le> of_char hi"

text \<open>The character class \<^verbatim>\<open>[a-zA-Z0-9]\<close>.\<close>

definition alnum :: "char \<Rightarrow> bool" where
  "alnum c \<longleftrightarrow> in_range CHR ''a'' CHR ''z'' c \<or> in_range CHR ''A'' CHR ''Z'' c
     \<or> in_range CHR ''0'' CHR ''9'' c"

text \<open>The character class \<^verbatim>\<open>[a-zA-Z0-9-]\<close>.\<close>

definition alnum_hyphen :: "char \<Rightarrow> bool" where
  "alnum_hyphen c \<longleftrightarrow> in_range CHR ''a'' CHR ''z'' c \<or> in_range CHR ''A'' CHR ''Z'' c
     \<or> in_range CHR ''0'' CHR ''9'' c \<or> c = CHR ''-''"

text \<open>
  \<^verbatim>\<open>s.replace(/[^C]+/, rep)\<close> without the global flag, for a character class \<open>C\<close> and
  a replacement free of \<^verbatim>\<open>$\<close> patterns: the leftmost match starts at the first
  character outside \<open>C\<close> and, the quantifier being greedy, takes every following
  character outside \<open>C\<close>; what follows the match is copied as it is.
\<close>

fun replace_first :: "(char \<Rightarrow> bool) \<Rightarrow> string \<Rightarrow> string \<Rightarrow> string" where
  "replace_first C rep [] = []"
| "replace_first C rep (c # cs) =
     (if C c then c # replace_first C rep cs
      else rep @ dropWhile (\<lambda>d. \<not> C d) cs)"

text \<open>
  \<^verbatim>\<open>s.replace(/[^C]+/g, rep)\<close>: with the global flag the search goes on after each
  match.
\<close>

function replace_global :: "(char \<Rightarrow> bool) \<Rightarrow> string \<Rightarrow> string \<Rightarrow> string" where
  "replace_global C rep [] = []"
| "replace_global C rep (c # cs) =
     (if C c then c # replace_global C rep cs
      else rep @ replace_global C rep (dropWhile (\<lambda>d. \<not> C d) cs))"
  by pat_completeness auto
termination
  by (relation "measure (\<lambda>(C, rep, s). length s)")
     (auto simp: length_dropWhile_le less_Suc_eq_le)

definition canonicalise :: "string \<Rightarrow> string" where
  "canonicalise v = replace_first alnum_hyphen ''-'' v"

definition makeAlphanumeric :: "string \<Rightarrow> string" where
  "makeAlphanumeric v = replace_global alnum [] v"

subsection \<open>Package artifacts\<close>

text \<open>
  \<^verbatim>\<open>this.serverless.service.getFunction\<close> is a method of the host framework's service
  object; it is a parameter here, taking the service object and the function name.
  Calling a method of \<^verbatim>\<open>undefined\<close> or \<^verbatim>\<open>null\<close> throws a TypeError.
\<close>

definition PackageNotFoundError :: error where
  "PackageNotFoundError = Error ''Could not find zip package''"

definition getFunctionZipPath ::
  "(jsval \<Rightarrow> string \<Rightarrow> error + jsval) \<Rightarrow> 'p AwsCdkProvider \<Rightarrow> string \<Rightarrow> error + jsval" where
  "getFunctionZipPath getFunction this functionName =
     bindE (js_member (serverless this) ''service'') (\<lambda>service.
     bindE (if nullish service then Inl TypeError else getFunction service functionName)
       (\<lambda>func.
     bindE (js_member func ''package'') (\<lambda>package.
       if truthy (js_and package (js_prop package ''artifact''))
       then bindE (js_member func ''package'') (\<lambda>package'. js_member package' ''artifact'')
       else
         bindE (js_member (serverless this) ''service'') (\<lambda>service'.
         bindE (js_member service' ''artifact'') (\<lambda>artifact.
           if truthy artifact
           then bindE (js_member (serverless this) ''service'') (\<lambda>service''.
                  js_member service'' ''artifact'')
           else Inl PackageNotFoundError)))))"

section \<open>Credentials and sessions\<close>

text \<open>
  The outbound calls are made by the SDK and the toolkit. Their outcomes are parameters
  (\<open>toolkit\<close>); every call the adapter makes is appended to a log, so that what it
  delegates, and with which arguments, can be stated.
\<close>

record caller_identity =
  Arn :: "string option"
  Account :: "string option"
  UserId :: "string option"

record AccountInfo =
  accountId :: "string option"
  partition :: "string option"
  arn :: "string option"
  userId :: "string option"

record Environment =
  name :: jsval
  account :: "string option"
  region :: jsval

datatype Mode = ForReading | ForWriting

datatype 'p call =
    GetCallerIdentity jsval
  | WithAwsCliCompatibleDefaults jsval
  | WithAssumedRole 'p jsval "string option" jsval
  | ForEnvironment 'p Environment Mode

record ('p, 's) toolkit =
  getCallerIdentity :: "jsval \<Rightarrow> error + caller_identity"
  withAwsCliCompatibleDefaults :: "jsval \<Rightarrow> error + 'p"
  withAssumedRole :: "'p \<Rightarrow> jsval \<Rightarrow> string option \<Rightarrow> jsval \<Rightarrow> error + 's"
  forEnvironment :: "'p \<Rightarrow> Environment \<Rightarrow> Mode \<Rightarrow> error + 's"

record 'p world =
  adapter :: "'p AwsCdkProvider"
  calls :: "'p call list"

type_synonym ('p, 'a) async = "'p world \<Rightarrow> (error + 'a) \<times> 'p world"

text \<open>
  An \<^verbatim>\<open>async\<close> method, run to completion: it takes the state and returns the value
  its promise resolves to, or the error it rejects with, and the state it leaves.
\<close>

definition bindA :: "('p, 'a) async \<Rightarrow> ('a \<Rightarrow> ('p, 'b) async) \<Rightarrow> ('p, 'b) async" where
  "bindA m f = (\<lambda>w. case m w of (Inl e, w') \<Rightarrow> (Inl e, w') | (Inr a, w') \<Rightarrow> f a w')"

definition returnA :: "'a \<Rightarrow> ('p, 'a) async" where
  "returnA a = (\<lambda>w. (Inr a, w))"

definition read :: "('p AwsCdkProvider \<Rightarrow> 'a) \<Rightarrow> ('p, 'a) async" where
  "read f = (\<lambda>w. (Inr (f (adapter w)), w))"

definition attempt :: "('p AwsCdkProvider \<Rightarrow> error + 'a) \<Rightarrow> ('p, 'a) async" where
  "attempt f = (\<lambda>w. (f (adapter w), w))"

definition external :: "'p call \<Rightarrow> error + 'a \<Rightarrow> ('p, 'a) async" where
  "external c outcome = (\<lambda>w. (outcome, w\<lparr>calls := calls w @ [c]\<rparr>))"

text \<open>
  \<^verbatim>\<open>_.split(string, ":")\<close> applies lodash's \<^verbatim>\<open>toString\<close> first, which maps
  \<^verbatim>\<open>undefined\<close> to the empty string; \<^verbatim>\<open>_.nth(array, n)\<close> for \<open>n \<ge> 0\<close> is the element
  at \<open>n\<close>, \<^verbatim>\<open>undefined\<close> beyond the end.
\<close>

definition lodash_split :: "string option \<Rightarrow> char \<Rightarrow> string list" where
  "lodash_split s sep = split_on sep (case s of None \<Rightarrow> [] | Some x \<Rightarrow> x)"

definition lodash_nth :: "'a list \<Rightarrow> nat \<Rightarrow> 'a option" where
  "lodash_nth xs n = (if n < length xs then Some (xs ! n) else None)"

definition getAccountInfo :: "('p, 's) toolkit \<Rightarrow> ('p, AccountInfo) async" where
  "getAccountInfo tk =
     bindA (read getRegion) (\<lambda>clientRegion.
     bindA (external (GetCallerIdentity clientRegion) (getCallerIdentity tk clientRegion))
       (\<lambda>result.
          returnA \<lparr>accountId = Account result,
                   partition = lodash_nth (lodash_split (Arn result) CHR '':'') 1,
                   arn = Arn result,
                   userId = UserId result\<rparr>))"

definition getAccountId :: "('p, 's) toolkit \<Rightarrow> ('p, string option) async" where
  "getAccountId tk = bindA (getAccountInfo tk) (\<lambda>info. returnA (accountId info))"

definition getEnvironment :: "('p, 's) toolkit \<Rightarrow> ('p, Environment) async" where
  "getEnvironment tk =
     bindA (getAccountId tk) (\<lambda>acct.
     bindA (read getRegion) (\<lambda>reg.
     bindA (read getStage) (\<lambda>stage.
       returnA \<lparr>name = stage, account = acct, region = reg\<rparr>)))"

definition getSdkProvider :: "('p, 's) toolkit \<Rightarrow> ('p, 'p) async" where
  "getSdkProvider tk = (\<lambda>w.
     case sdkProvider (adapter w) of
       Some p \<Rightarrow> (Inr p, w)
     | None \<Rightarrow>
         bindA (read getProfile) (\<lambda>profile.
         bindA (external (WithAwsCliCompatibleDefaults profile)
                  (withAwsCliCompatibleDefaults tk profile)) (\<lambda>p w'.
           (Inr p, w'\<lparr>adapter := (adapter w')\<lparr>sdkProvider := Some p\<rparr>\<rparr>))) w)"

definition getSdk :: "('p, 's) toolkit \<Rightarrow> ('p, 's) async" where
  "getSdk tk =
     bindA (attempt getCfnRoleArn) (\<lambda>assumeRoleArn.
     bindA (getSdkProvider tk) (\<lambda>p.
       if truthy assumeRoleArn
       then
         bindA (getAccountId tk) (\<lambda>acct.
         bindA (read getRegion) (\<lambda>reg.
           external (WithAssumedRole p assumeRoleArn acct reg)
             (withAssumedRole tk p assumeRoleArn acct reg)))
       else
         bindA (getEnvironment tk) (\<lambda>env.
           external (ForEnvironment p env ForWriting) (forEnvironment tk p env ForWriting))))"

section \<open>Notions the properties are stated with\<close>

text \<open>
  The three precedence chains, entry by entry: the command-line option, the run
  configuration, the provider section of the service definition (the profile has two
  command-line spellings). Each entry is read directly, by walking the keys from the
  adapter's field.
\<close>

definition stage_chain :: "'p AwsCdkProvider \<Rightarrow> jsval list" where
  "stage_chain this =
     [baseGet_loop (options this) [''stage''],
      baseGet_loop (serverless this) [''config'', ''stage''],
      baseGet_loop (serverless this) [''service'', ''provider'', ''stage'']]"

definition region_chain :: "'p AwsCdkProvider \<Rightarrow> jsval list" where
  "region_chain this =
     [baseGet_loop (options this) [''region''],
      baseGet_loop (serverless this) [''config'', ''region''],
      baseGet_loop (serverless this) [''service'', ''provider'', ''region'']]"

definition profile_chain :: "'p AwsCdkProvider \<Rightarrow> jsval list" where
  "profile_chain this =
     [baseGet_loop (options this) [''aws-profile''],
      baseGet_loop (options this) [''profile''],
      baseGet_loop (serverless this) [''config'', ''profile''],
      baseGet_loop (serverless this) [''service'', ''provider'', ''profile'']]"

text \<open>
  The second of the segments the separators cut a string into: what lies between the
  first separator and the next one (or the end of the string); none when the string has
  no separator.
\<close>

definition second_segment :: "char \<Rightarrow> string \<Rightarrow> string option" where
  "second_segment sep s =
     (case dropWhile (\<lambda>c. c \<noteq> sep) s of
        [] \<Rightarrow> None
      | c # r \<Rightarrow> Some (takeWhile (\<lambda>c. c \<noteq> sep) r))"

text \<open>\<open>n\<close> calls of \<^verbatim>\<open>getSdkProvider\<close> one after the other: their results, and the final state.\<close>

fun repeat_getSdkProvider ::
  "('p, 's) toolkit \<Rightarrow> nat \<Rightarrow> 'p world \<Rightarrow> (error + 'p) list \<times> 'p world" where
  "repeat_getSdkProvider tk 0 w = ([], w)"
| "repeat_getSdkProvider tk (Suc n) w =
     (case getSdkProvider tk w of (r, w') \<Rightarrow>
        (case repeat_getSdkProvider tk n w' of (rs, w'') \<Rightarrow> (r # rs, w'')))"

subsection \<open>Example configurations\<close>

text \<open>A service with nothing optional configured, and one function without a package.\<close>

definition example_bare :: "nat AwsCdkProvider" where
  "example_bare =
     \<lparr>options = JObj [],
      serverless = JObj
        [(''config'', JObj [(''servicePath'', JStr ''/srv'')]),
         (''service'', JObj
           [(''service'', JStr ''svc''),
            (''provider'', JObj [(''name'', JStr ''aws-cdk'')]),
            (''functions'', JObj [(''plain'', JObj [(''handler'', JStr ''index.handler'')])])])],
      tsCompiled = False,
      sdkProvider = None\<rparr>"

text \<open>
  A service with every optional setting present; the stage given on the command line is
  the empty string.
\<close>

definition example_full :: "nat AwsCdkProvider" where
  "example_full =
     \<lparr>options = JObj [(''stage'', JStr []), (''profile'', JStr ''deployer'')],
      serverless = JObj
        [(''config'', JObj [(''servicePath'', JStr ''/srv''), (''stage'', JStr ''prod'')]),
         (''service'', JObj
           [(''service'', JStr ''svc''),
            (''artifact'', JStr ''service.zip''),
            (''provider'', JObj
              [(''name'', JStr ''aws-cdk''),
               (''stage'', JStr ''qa''),
               (''region'', JStr ''eu-west-1''),
               (''stackName'', JStr ''custom-stack''),
               (''cfnRole'', JStr ''arn:aws:iam::123456789012:role/deploy''),
               (''deploymentBucket'', JObj [(''name'', JStr ''artifacts-bucket'')])]),
            (''functions'', JObj
              [(''hello'', JObj [(''package'', JObj [(''artifact'', JStr ''hello.zip'')])])])])],
      tsCompiled = False,
      sdkProvider = None\<rparr>"

text \<open>The host's lookup of a function definition: it throws for an unknown name.\<close>

definition example_getFunction :: "jsval \<Rightarrow> string \<Rightarrow> error + jsval" where
  "example_getFunction service functionName =
     (case js_prop (js_prop service ''functions'') functionName of
        JObj kvs \<Rightarrow> Inr (JObj kvs)
      | other \<Rightarrow> Inl (External ''Function does not exist in this Service''))"

definition example_identity :: caller_identity where
  "example_identity =
     \<lparr>Arn = Some ''arn:aws:iam::123456789012:user/dev'',
      Account = Some ''123456789012'',
      UserId = Some ''AIDAEXAMPLE''\<rparr>"

definition example_toolkit :: "(nat, string) toolkit" where
  "example_toolkit =
     \<lparr>getCallerIdentity = (\<lambda>clientRegion. Inr example_identity),
      withAwsCliCompatibleDefaults = (\<lambda>profile. Inr 7),
      withAssumedRole = (\<lambda>p roleArn acct reg. Inr ''assumed-role session''),
      forEnvironment = (\<lambda>p env mode. Inr ''environment session'')\<rparr>"

section \<open>Auxiliary facts\<close>

lemma bindE_Inr [simp]: "bindE (Inr a) f = f a"
  by (simp add: bindE_def)

lemma bindE_Inl [simp]: "bindE (Inl e) f = Inl e"
  by (simp add: bindE_def)

lemma js_member_Inr_iff: "js_member v k = Inr x \<longleftrightarrow> \<not> nullish v \<and> x = js_prop v k"
  by (auto simp: js_member_def)

lemma js_member_prop: "\<not> nullish v \<Longrightarrow> js_member v k = Inr (js_prop v k)"
  by (simp add: js_member_def)

lemma truthy_not_nullish: "truthy v \<Longrightarrow> \<not> nullish v"
  by (cases v) auto

lemmas eval_defs = getValues_def lodash_get_def this_object_def baseGet_def stringToPath_def
  firstValue_def js_or_def js_member_def

subsection \<open>The fold of \<open>firstValue\<close>\<close>

lemma foldl_first_truthy:
  "foldl (\<lambda>result current. if truthy (val result) then result else current) acc vs =
     (if truthy (val acc) then acc
      else (case find (\<lambda>pv. truthy (val pv)) vs of
              Some pv \<Rightarrow> pv
            | None \<Rightarrow> (if vs = [] then acc else last vs)))"
  by (induction vs arbitrary: acc) (auto split: option.splits)

lemma val_firstValue:
  "val (firstValue vs) =
     (case find truthy (map val vs) of
        Some v \<Rightarrow> v
      | None \<Rightarrow> (if vs = [] then JUndefined else last (map val vs)))"
  unfolding firstValue_def foldl_first_truthy
  by (induction vs) (auto split: option.splits simp: last_map)

lemma find_truthy_Some: "find truthy vs = Some v \<Longrightarrow> truthy v"
  by (auto simp: find_Some_iff)

lemma find_truthy_None_last: "vs \<noteq> [] \<Longrightarrow> find truthy vs = None \<Longrightarrow> \<not> truthy (last vs)"
  by (simp add: find_None_iff)

lemma js_or_firstValue:
  assumes "vs \<noteq> []"
  shows "js_or (val (firstValue vs)) d =
           (case find truthy (map val vs) of Some v \<Rightarrow> v | None \<Rightarrow> d)"
proof (cases "find truthy (map val vs)")
  case None
  have "\<not> truthy (last (map val vs))"
    using assms None by (intro find_truthy_None_last) simp_all
  then show ?thesis
    using assms None by (simp add: val_firstValue js_or_def)
next
  case (Some v)
  then show ?thesis
    by (simp add: val_firstValue js_or_def find_truthy_Some)
qed

lemma map_val_getValues:
  "map val (getValues source ps) = map (\<lambda>p. lodash_get source (join CHR ''.'' p)) ps"
  by (simp add: getValues_def comp_def)

lemma stage_values:
  "map val (getValues (this_object this)
       [[''options'', ''stage''],
        [''serverless'', ''config'', ''stage''],
        [''serverless'', ''service'', ''provider'', ''stage'']]) = stage_chain this"
  by (simp add: map_val_getValues stage_chain_def lodash_get_def this_object_def baseGet_def
      stringToPath_def)

lemma region_values:
  "map val (getValues (this_object this)
       [[''options'', ''region''],
        [''serverless'', ''config'', ''region''],
        [''serverless'', ''service'', ''provider'', ''region'']]) = region_chain this"
  by (simp add: map_val_getValues region_chain_def lodash_get_def this_object_def baseGet_def
      stringToPath_def)

lemma profile_values:
  "map val (getValues (this_object this)
       [[''options'', ''aws-profile''],
        [''options'', ''profile''],
        [''serverless'', ''config'', ''profile''],
        [''serverless'', ''service'', ''provider'', ''profile'']]) = profile_chain this"
  by (simp add: map_val_getValues profile_chain_def lodash_get_def this_object_def baseGet_def
      stringToPath_def)

lemma getStage_find:
  "getStage this =
     (case find truthy (stage_chain this) of Some v \<Rightarrow> v | None \<Rightarrow> JStr ''dev'')"
proof -
  have "getValues (this_object this)
       [[''options'', ''stage''],
        [''serverless'', ''config'', ''stage''],
        [''serverless'', ''service'', ''provider'', ''stage'']] \<noteq> []"
    by (simp add: getValues_def)
  from js_or_firstValue [OF this] show ?thesis
    by (simp only: getStage_def getStageSourceValue_def Let_def stage_values)
qed

lemma getRegion_find:
  "getRegion this =
     (case find truthy (region_chain this) of Some v \<Rightarrow> v | None \<Rightarrow> JStr ''us-east-1'')"
proof -
  have "getValues (this_object this)
       [[''options'', ''region''],
        [''serverless'', ''config'', ''region''],
        [''serverless'', ''service'', ''provider'', ''region'']] \<noteq> []"
    by (simp add: getValues_def)
  from js_or_firstValue [OF this] show ?thesis
    by (simp only: getRegion_def getRegionSourceValue_def Let_def region_values)
qed

lemma getProfile_find:
  "getProfile this =
     (case find truthy (profile_chain this) of
        Some v \<Rightarrow> v
      | None \<Rightarrow> last (profile_chain this))"
proof -
  have "getValues (this_object this)
       [[''options'', ''aws-profile''],
        [''options'', ''profile''],
        [''serverless'', ''config'', ''profile''],
        [''serverless'', ''service'', ''provider'', ''profile'']] \<noteq> []"
    by (simp add: getValues_def)
  then show ?thesis
    by (simp only: getProfile_def getProfileSourceValue_def Let_def object_truthy_def
        if_True val_firstValue profile_values if_False)
qed

lemma profile_chain_not_Nil: "profile_chain this \<noteq> []"
  by (simp add: profile_chain_def)

text \<open>None of the getters reads the memoised handle.\<close>

lemma getRegion_cong:
  "options a = options b \<Longrightarrow> serverless a = serverless b \<Longrightarrow> getRegion a = getRegion b"
  by (simp add: getRegion_def getRegionSourceValue_def this_object_def)

lemma getStage_cong:
  "options a = options b \<Longrightarrow> serverless a = serverless b \<Longrightarrow> getStage a = getStage b"
  by (simp add: getStage_def getStageSourceValue_def this_object_def)

subsection \<open>The two replacements\<close>

lemma replace_first_clean: "\<forall>c\<in>set s. C c \<Longrightarrow> replace_first C rep s = s"
  by (induction s) auto

lemma replace_first_run:
  assumes "\<forall>c\<in>set pre. C c" and "bad \<noteq> []" and "\<forall>c\<in>set bad. \<not> C c"
    and "rest = [] \<or> C (hd rest)"
  shows "replace_first C rep (pre @ bad @ rest) = pre @ rep @ rest"
  using assms(1)
proof (induction pre)
  case Nil
  obtain b bs where bad: "bad = b # bs"
    using assms(2) by (cases bad) auto
  have "dropWhile (\<lambda>d. \<not> C d) (bs @ rest) = dropWhile (\<lambda>d. \<not> C d) rest"
    using assms(3) bad by (simp add: dropWhile_append)
  also have "\<dots> = rest"
    using assms(4) by (cases rest) auto
  finally show ?case
    using assms(3) bad by simp
next
  case (Cons a pre)
  then show ?case by simp
qed

lemma filter_dropWhile_not: "filter C (dropWhile (\<lambda>d. \<not> C d) cs) = filter C cs"
  by (induction cs) auto

lemma replace_global_filter: "replace_global C [] s = filter C s"
  by (induction C "[] :: string" s rule: replace_global.induct)
     (auto simp: filter_dropWhile_not)

subsection \<open>Splitting\<close>

lemma split_on_not_Nil: "split_on sep s \<noteq> []"
  by (induction s) (auto split: list.splits)

lemma split_on_unfold:
  "split_on sep s = takeWhile (\<lambda>c. c \<noteq> sep) s #
     (case dropWhile (\<lambda>c. c \<noteq> sep) s of [] \<Rightarrow> [] | c # r \<Rightarrow> split_on sep r)"
  by (induction s) (auto split: list.splits simp: split_on_not_Nil)

lemma nth1_split_on: "lodash_nth (split_on sep s) 1 = second_segment sep s"
proof (cases "dropWhile (\<lambda>c. c \<noteq> sep) s")
  case Nil
  have "split_on sep s = [takeWhile (\<lambda>c. c \<noteq> sep) s]"
    by (subst split_on_unfold) (simp only: Nil list.case)
  then show ?thesis
    by (simp only: lodash_nth_def second_segment_def Nil list.case) simp
next
  case (Cons c r)
  have "split_on sep s = takeWhile (\<lambda>c. c \<noteq> sep) s # split_on sep r"
    by (subst split_on_unfold) (simp only: Cons list.case)
  also have "split_on sep r = takeWhile (\<lambda>c. c \<noteq> sep) r #
     (case dropWhile (\<lambda>c. c \<noteq> sep) r of [] \<Rightarrow> [] | c # r' \<Rightarrow> split_on sep r')"
    by (rule split_on_unfold)
  finally show ?thesis
    by (simp only: lodash_nth_def second_segment_def Cons list.case) simp
qed

subsection \<open>The asynchronous methods\<close>

lemma getAccountInfo_ok:
  assumes "getCallerIdentity tk (getRegion (adapter w)) = Inr ident"
  shows "getAccountInfo tk w =
           (Inr \<lparr>accountId = Account ident,
                 partition = lodash_nth (lodash_split (Arn ident) CHR '':'') 1,
                 arn = Arn ident, userId = UserId ident\<rparr>,
            w\<lparr>calls := calls w @ [GetCallerIdentity (getRegion (adapter w))]\<rparr>)"
  using assms by (simp add: getAccountInfo_def bindA_def read_def external_def returnA_def)

lemma getAccountId_ok:
  assumes "getCallerIdentity tk (getRegion (adapter w)) = Inr ident"
  shows "getAccountId tk w =
           (Inr (Account ident),
            w\<lparr>calls := calls w @ [GetCallerIdentity (getRegion (adapter w))]\<rparr>)"
  using getAccountInfo_ok [OF assms] by (simp add: getAccountId_def bindA_def returnA_def)

lemma getEnvironment_ok:
  assumes "getCallerIdentity tk (getRegion (adapter w)) = Inr ident"
  shows "getEnvironment tk w =
           (Inr \<lparr>name = getStage (adapter w), account = Account ident,
                 region = getRegion (adapter w)\<rparr>,
            w\<lparr>calls := calls w @ [GetCallerIdentity (getRegion (adapter w))]\<rparr>)"
  using getAccountId_ok [OF assms]
  by (simp add: getEnvironment_def bindA_def returnA_def read_def)

lemma getSdkProvider_adapter:
  assumes "getSdkProvider tk w = (r, w1)"
  shows "options (adapter w1) = options (adapter w) \<and>
         serverless (adapter w1) = serverless (adapter w)"
  using assms
  by (auto simp: getSdkProvider_def bindA_def read_def external_def
      split: option.splits sum.splits)

lemma getSdkProvider_fresh:
  assumes "sdkProvider (adapter w) = None"
  shows "getSdkProvider tk w =
           (case withAwsCliCompatibleDefaults tk (getProfile (adapter w)) of
              Inl e \<Rightarrow>
                (Inl e,
                 w\<lparr>calls := calls w @ [WithAwsCliCompatibleDefaults (getProfile (adapter w))]\<rparr>)
            | Inr h \<Rightarrow>
                (Inr h,
                 w\<lparr>adapter := (adapter w)\<lparr>sdkProvider := Some h\<rparr>,
                   calls := calls w @ [WithAwsCliCompatibleDefaults (getProfile (adapter w))]\<rparr>))"
  using assms
  by (simp add: getSdkProvider_def bindA_def read_def external_def split: sum.splits)

lemma getSdkProvider_cached:
  assumes "sdkProvider (adapter w) = Some h"
  shows "getSdkProvider tk w = (Inr h, w)"
  using assms by (simp add: getSdkProvider_def)

lemma getSdkProvider_memo:
  assumes "getSdkProvider tk w = (Inr h, w')"
  shows "sdkProvider (adapter w') = Some h"
  using assms
  by (auto simp: getSdkProvider_def bindA_def read_def external_def
      split: option.splits sum.splits)

lemma repeat_cached:
  "sdkProvider (adapter w) = Some h \<Longrightarrow>
     repeat_getSdkProvider tk n w = (replicate n (Inr h), w)"
  by (induction n) (simp_all add: getSdkProvider_cached)

section \<open>Properties of the adapter\<close>

subsection \<open>Configuration precedence\<close>

text \<open>
  Claim C1. For each of the three precedence chains (stage, region, profile) the resolved
  value is the first non-empty entry of the chain in its fixed order, where an entry is
  empty when JavaScript takes it for false (absent, \<^verbatim>\<open>null\<close>, the empty string, zero).
  When every entry is empty, \<^verbatim>\<open>getStage\<close> returns \<^verbatim>\<open>"dev"\<close>, \<^verbatim>\<open>getRegion\<close> returns
  \<^verbatim>\<open>"us-east-1"\<close>, and \<^verbatim>\<open>getProfile\<close> returns an unset value: the value of the last
  entry of the chain, which is empty itself; when no entry is configured at all
  (each is \<^verbatim>\<open>undefined\<close> or \<^verbatim>\<open>null\<close>), so is the profile returned.
\<close>

theorem precedence_chains_first_non_empty:
  "getStage this =
     (case find truthy (stage_chain this) of Some v \<Rightarrow> v | None \<Rightarrow> JStr ''dev'')
   \<and> getRegion this =
     (case find truthy (region_chain this) of Some v \<Rightarrow> v | None \<Rightarrow> JStr ''us-east-1'')
   \<and> getProfile this =
     (case find truthy (profile_chain this) of
        Some v \<Rightarrow> v
      | None \<Rightarrow> last (profile_chain this))
   \<and> (find truthy (profile_chain this) = None \<longrightarrow> \<not> truthy (getProfile this))
   \<and> ((\<forall>v\<in>set (profile_chain this). nullish v) \<longrightarrow> nullish (getProfile this))"
proof -
  have falsy: "\<not> truthy (getProfile this)" if none: "find truthy (profile_chain this) = None"
    using find_truthy_None_last [OF profile_chain_not_Nil none]
    by (simp add: getProfile_find none)
  have unset: "nullish (getProfile this)" if all: "\<forall>v\<in>set (profile_chain this). nullish v"
  proof -
    have "\<forall>v\<in>set (profile_chain this). \<not> truthy v"
      using all truthy_not_nullish by blast
    then have "find truthy (profile_chain this) = None"
      by (simp add: find_None_iff)
    moreover have "last (profile_chain this) \<in> set (profile_chain this)"
      using profile_chain_not_Nil by (rule last_in_set)
    ultimately show ?thesis
      using all by (simp add: getProfile_find)
  qed
  show ?thesis
    using getStage_find [of this] getRegion_find [of this] getProfile_find [of this]
      falsy unset
    by blast
qed

theorem precedence_chains_first_non_empty_witness:
  "find truthy (stage_chain example_full) = Some (JStr ''prod'')
   \<and> getStage example_full = JStr ''prod''
   \<and> getRegion example_full = JStr ''eu-west-1''
   \<and> getProfile example_full = JStr ''deployer''
   \<and> find truthy (profile_chain example_bare) = None
   \<and> profile_chain example_bare = [JUndefined, JUndefined, JUndefined, JUndefined]
   \<and> getStage example_bare = JStr ''dev''
   \<and> getRegion example_bare = JStr ''us-east-1''
   \<and> \<not> truthy (getProfile example_bare)
   \<and> nullish (getProfile example_bare)"
proof -
  have full: "stage_chain example_full = [JStr [], JStr ''prod'', JStr ''qa'']"
    "region_chain example_full = [JUndefined, JUndefined, JStr ''eu-west-1'']"
    "profile_chain example_full = [JUndefined, JStr ''deployer'', JUndefined, JUndefined]"
    by (simp_all add: stage_chain_def region_chain_def profile_chain_def example_full_def)
  have bare: "stage_chain example_bare = [JUndefined, JUndefined, JUndefined]"
    "region_chain example_bare = [JUndefined, JUndefined, JUndefined]"
    "profile_chain example_bare = [JUndefined, JUndefined, JUndefined, JUndefined]"
    by (simp_all add: stage_chain_def region_chain_def profile_chain_def example_bare_def)
  show ?thesis
    using precedence_chains_first_non_empty [of example_full]
      precedence_chains_first_non_empty [of example_bare]
    by (simp add: full bare)
qed

subsection \<open>Identifier sanitising\<close>

text \<open>
  Claim C2. \<^verbatim>\<open>canonicalise\<close> replaces only the first maximal run of characters outside
  \<^verbatim>\<open>[a-zA-Z0-9-]\<close> with a single hyphen and leaves what follows, later runs included,
  unchanged: a string made of a prefix inside the class, then a non-empty run outside
  it, then a rest that is empty or starts inside the class, becomes the prefix, a
  hyphen and the rest as it was. In particular \<^verbatim>\<open>canonicalise("a!!b!!c") = "a-b!!c"\<close>.
\<close>

theorem canonicalise_first_run_only:
  "((\<forall>c\<in>set pre. alnum_hyphen c) \<and> bad \<noteq> [] \<and> (\<forall>c\<in>set bad. \<not> alnum_hyphen c)
      \<and> (rest = [] \<or> alnum_hyphen (hd rest))
      \<longrightarrow> canonicalise (pre @ bad @ rest) = pre @ ''-'' @ rest)
   \<and> canonicalise ''a!!b!!c'' = ''a-b!!c''"
proof -
  have example: "canonicalise ''a!!b!!c'' = ''a-b!!c''"
    by (simp add: canonicalise_def alnum_hyphen_def in_range_def)
  have general: "canonicalise (pre @ bad @ rest) = pre @ ''-'' @ rest"
    if "(\<forall>c\<in>set pre. alnum_hyphen c) \<and> bad \<noteq> [] \<and> (\<forall>c\<in>set bad. \<not> alnum_hyphen c)
      \<and> (rest = [] \<or> alnum_hyphen (hd rest))"
    unfolding canonicalise_def using that by (intro replace_first_run) simp_all
  show ?thesis
    using example general by blast
qed

theorem canonicalise_first_run_only_witness:
  "list_all alnum_hyphen ''ab'' \<and> ''_!'' \<noteq> [] \<and> list_all (\<lambda>c. \<not> alnum_hyphen c) ''_!''
   \<and> alnum_hyphen (hd ''c..d'')
   \<and> canonicalise (''ab'' @ ''_!'' @ ''c..d'') = ''ab'' @ ''-'' @ ''c..d''"
proof -
  have h: "(\<forall>c\<in>set ''ab''. alnum_hyphen c) \<and> ''_!'' \<noteq> [] \<and>
      (\<forall>c\<in>set ''_!''. \<not> alnum_hyphen c) \<and> (''c..d'' = [] \<or> alnum_hyphen (hd ''c..d''))"
    by (simp add: alnum_hyphen_def in_range_def)
  have "canonicalise (''ab'' @ ''_!'' @ ''c..d'') = ''ab'' @ ''-'' @ ''c..d''"
    using canonicalise_first_run_only [of "''ab''" "''_!''" "''c..d''"] h by blast
  then show ?thesis
    using h by (simp add: list_all_iff)
qed

text \<open>
  Claim C9. \<^verbatim>\<open>makeAlphanumeric\<close> removes every character outside \<^verbatim>\<open>[a-zA-Z0-9]\<close> from
  its input, across the whole string: the result is the input's characters of the class,
  in their order. In particular \<^verbatim>\<open>makeAlphanumeric("a-b_c!d") = "abcd"\<close>.
\<close>

theorem makeAlphanumeric_removes_all:
  "makeAlphanumeric s = filter alnum s \<and> makeAlphanumeric ''a-b_c!d'' = ''abcd''"
  by (simp add: makeAlphanumeric_def replace_global_filter alnum_def in_range_def)

text \<open>
  Claim C10. \<^verbatim>\<open>makeAlphanumeric\<close> is idempotent, and its output consists only of
  characters of \<^verbatim>\<open>[a-zA-Z0-9]\<close>.
\<close>

theorem makeAlphanumeric_idempotent:
  "makeAlphanumeric (makeAlphanumeric s) = makeAlphanumeric s
   \<and> (\<forall>c\<in>set (makeAlphanumeric s). alnum c)"
  by (simp add: makeAlphanumeric_def replace_global_filter)

theorem makeAlphanumeric_idempotent_witness:
  "makeAlphanumeric ''a-b_c!d'' = ''abcd''
   \<and> makeAlphanumeric (makeAlphanumeric ''a-b_c!d'') = ''abcd''
   \<and> list_all alnum ''abcd''"
proof -
  have "makeAlphanumeric ''a-b_c!d'' = ''abcd''"
    by (simp add: makeAlphanumeric_def alnum_def in_range_def)
  then show ?thesis
    using makeAlphanumeric_idempotent [of "''a-b_c!d''"] by (simp add: list_all_iff)
qed

subsection \<open>Stack name, deployment bucket, package artifact\<close>

text \<open>
  Claim C4. Where the provider section of the service exists, \<^verbatim>\<open>getStackName\<close> returns
  the explicit stack-name override when one is set (truthy); otherwise it returns
  exactly the service name and the resolved stage joined by a hyphen, each converted to
  a string as a template literal does (a string is left as it is).
\<close>

theorem getStackName_override_or_joined:
  assumes "js_member (serverless this) ''service'' = Inr svc"
    and "js_member svc ''provider'' = Inr prov"
    and "js_member prov ''stackName'' = Inr override"
  shows "(truthy override \<longrightarrow> getStackName this = Inr override) \<and>
         (\<not> truthy override \<longrightarrow>
            getStackName this =
              Inr (JStr (js_toString (js_prop svc ''service'') @ ''-'' @
                         js_toString (getStage this))))"
proof -
  have "\<not> nullish svc"
    using assms(2) by (simp add: js_member_Inr_iff)
  then have "js_member svc ''service'' = Inr (js_prop svc ''service'')"
    by (rule js_member_prop)
  then show ?thesis
    using assms by (simp add: getStackName_def)
qed

theorem getStackName_override_or_joined_witness:
  "getStackName example_full = Inr (JStr ''custom-stack'')
   \<and> getStage example_bare = JStr ''dev''
   \<and> getStackName example_bare = Inr (JStr ''svc-dev'')"
proof -
  let ?svc = "js_prop (serverless example_full) ''service''"
  let ?prov = "js_prop ?svc ''provider''"
  have f1: "js_member (serverless example_full) ''service'' = Inr ?svc"
    by (simp add: example_full_def js_member_def)
  have f2: "js_member ?svc ''provider'' = Inr ?prov"
    by (simp add: example_full_def js_member_def)
  have f3: "js_member ?prov ''stackName'' = Inr (JStr ''custom-stack'')"
    by (simp add: example_full_def js_member_def)
  let ?bsvc = "js_prop (serverless example_bare) ''service''"
  let ?bprov = "js_prop ?bsvc ''provider''"
  have b1: "js_member (serverless example_bare) ''service'' = Inr ?bsvc"
    by (simp add: example_bare_def js_member_def)
  have b2: "js_member ?bsvc ''provider'' = Inr ?bprov"
    by (simp add: example_bare_def js_member_def)
  have b3: "js_member ?bprov ''stackName'' = Inr JUndefined"
    by (simp add: example_bare_def js_member_def)
  have name: "js_prop ?bsvc ''service'' = JStr ''svc''"
    by (simp add: example_bare_def)
  have stage: "getStage example_bare = JStr ''dev''"
    by (simp add: getStage_def getStageSourceValue_def example_bare_def eval_defs)
  show ?thesis
    using getStackName_override_or_joined [OF f1 f2 f3]
      getStackName_override_or_joined [OF b1 b2 b3] name stage
    by simp
qed

text \<open>
  Claim C7. Where the provider section of the service exists, \<^verbatim>\<open>getDeploymentBucketName\<close>
  returns the configured bucket name when the deployment-bucket configuration exists
  and has a name (both truthy), and returns \<^verbatim>\<open>undefined\<close>, which is a result and not
  an error, when either is absent.
\<close>

theorem getDeploymentBucketName_name_or_undefined:
  assumes "js_member (serverless this) ''service'' = Inr svc"
    and "js_member svc ''provider'' = Inr prov"
    and "js_member prov ''deploymentBucket'' = Inr cfg"
  shows "(truthy cfg \<and> truthy (js_prop cfg ''name'') \<longrightarrow>
            getDeploymentBucketName this = Inr (js_prop cfg ''name'')) \<and>
         (\<not> truthy cfg \<or> \<not> truthy (js_prop cfg ''name'') \<longrightarrow>
            getDeploymentBucketName this = Inr JUndefined)"
  using assms by (auto simp: getDeploymentBucketName_def js_and_def)

theorem getDeploymentBucketName_name_or_undefined_witness:
  "getDeploymentBucketName example_full = Inr (JStr ''artifacts-bucket'')
   \<and> getDeploymentBucketName example_bare = Inr JUndefined"
proof -
  let ?svc = "js_prop (serverless example_full) ''service''"
  let ?prov = "js_prop ?svc ''provider''"
  let ?cfg = "JObj [(''name'', JStr ''artifacts-bucket'')]"
  have f1: "js_member (serverless example_full) ''service'' = Inr ?svc"
    by (simp add: example_full_def js_member_def)
  have f2: "js_member ?svc ''provider'' = Inr ?prov"
    by (simp add: example_full_def js_member_def)
  have f3: "js_member ?prov ''deploymentBucket'' = Inr ?cfg"
    by (simp add: example_full_def js_member_def)
  let ?bsvc = "js_prop (serverless example_bare) ''service''"
  let ?bprov = "js_prop ?bsvc ''provider''"
  have b1: "js_member (serverless example_bare) ''service'' = Inr ?bsvc"
    by (simp add: example_bare_def js_member_def)
  have b2: "js_member ?bsvc ''provider'' = Inr ?bprov"
    by (simp add: example_bare_def js_member_def)
  have b3: "js_member ?bprov ''deploymentBucket'' = Inr JUndefined"
    by (simp add: example_bare_def js_member_def)
  show ?thesis
    using getDeploymentBucketName_name_or_undefined [OF f1 f2 f3]
      getDeploymentBucketName_name_or_undefined [OF b1 b2 b3]
    by simp
qed

text \<open>
  Claim C3. For every function name that the host framework resolves to a function
  definition, \<^verbatim>\<open>getFunctionZipPath\<close> returns the per-function package artifact path when
  it is set, whatever the service-wide artifact is; when neither the per-function
  artifact nor the service-wide artifact is set, it fails with the error
  \<^verbatim>\<open>Could not find zip package\<close> (the PackageNotFoundError).
\<close>

theorem getFunctionZipPath_precedence_and_failure:
  assumes "js_member (serverless this) ''service'' = Inr svc"
    and "\<not> nullish svc"
    and "getFunction svc functionName = Inr func"
    and "js_member func ''package'' = Inr pkg"
  shows "(truthy pkg \<and> truthy (js_prop pkg ''artifact'') \<longrightarrow>
            getFunctionZipPath getFunction this functionName = Inr (js_prop pkg ''artifact''))
         \<and> (\<not> (truthy pkg \<and> truthy (js_prop pkg ''artifact''))
              \<and> \<not> truthy (js_prop svc ''artifact'') \<longrightarrow>
            getFunctionZipPath getFunction this functionName = Inl PackageNotFoundError)"
proof -
  have svc: "js_member svc ''artifact'' = Inr (js_prop svc ''artifact'')"
    using assms(2) by (rule js_member_prop)
  have pkg: "truthy pkg \<Longrightarrow> js_member pkg ''artifact'' = Inr (js_prop pkg ''artifact'')"
    by (simp add: js_member_prop truthy_not_nullish)
  show ?thesis
    using assms svc pkg by (auto simp: getFunctionZipPath_def js_and_def)
qed

theorem getFunctionZipPath_precedence_and_failure_witness:
  "truthy (js_prop (js_prop (serverless example_full) ''service'') ''artifact'')
   \<and> getFunctionZipPath example_getFunction example_full ''hello'' = Inr (JStr ''hello.zip'')
   \<and> getFunctionZipPath example_getFunction example_bare ''plain'' = Inl PackageNotFoundError"
proof -
  let ?svc = "js_prop (serverless example_full) ''service''"
  let ?pkg = "JObj [(''artifact'', JStr ''hello.zip'')]"
  let ?func = "JObj [(''package'', ?pkg)]"
  have f1: "js_member (serverless example_full) ''service'' = Inr ?svc"
    by (simp add: example_full_def js_member_def)
  have f2: "\<not> nullish ?svc"
    by (simp add: example_full_def)
  have f3: "example_getFunction ?svc ''hello'' = Inr ?func"
    by (simp add: example_full_def example_getFunction_def)
  have f4: "js_member ?func ''package'' = Inr ?pkg"
    by (simp add: js_member_def)
  have f5: "truthy (js_prop ?svc ''artifact'')"
    by (simp add: example_full_def)
  let ?bsvc = "js_prop (serverless example_bare) ''service''"
  let ?bfunc = "JObj [(''handler'', JStr ''index.handler'')]"
  have b1: "js_member (serverless example_bare) ''service'' = Inr ?bsvc"
    by (simp add: example_bare_def js_member_def)
  have b2: "\<not> nullish ?bsvc"
    by (simp add: example_bare_def)
  have b3: "example_getFunction ?bsvc ''plain'' = Inr ?bfunc"
    by (simp add: example_bare_def example_getFunction_def)
  have b4: "js_member ?bfunc ''package'' = Inr JUndefined"
    by (simp add: js_member_def)
  have b5: "\<not> truthy (js_prop ?bsvc ''artifact'')"
    by (simp add: example_bare_def)
  show ?thesis
    using getFunctionZipPath_precedence_and_failure
        [where getFunction = example_getFunction, OF f1 f2 f3 f4]
      getFunctionZipPath_precedence_and_failure
        [where getFunction = example_getFunction, OF b1 b2 b3 b4] f5 b5
    by simp
qed

subsection \<open>Identity, sessions and the memoised SDK provider\<close>

text \<open>
  Claim C8. When the identity call resolves, \<^verbatim>\<open>getAccountInfo\<close> resolves, and the
  partition field of its result is the second segment of the ARN the identity call
  returned, the ARN being split at \<^verbatim>\<open>":"\<close>.
\<close>

theorem getAccountInfo_partition_second_segment:
  assumes "getCallerIdentity tk (getRegion (adapter w)) = Inr ident"
    and "Arn ident = Some a"
  shows "\<exists>info w'. getAccountInfo tk w = (Inr info, w') \<and> arn info = Some a
           \<and> partition info = second_segment CHR '':'' a"
proof -
  have "lodash_nth (lodash_split (Arn ident) CHR '':'') 1 = second_segment CHR '':'' a"
    by (simp only: assms(2) lodash_split_def option.case nth1_split_on)
  then show ?thesis
    using getAccountInfo_ok [OF assms(1)] assms(2) by simp
qed

theorem getAccountInfo_partition_second_segment_witness:
  "getCallerIdentity example_toolkit
      (getRegion (adapter \<lparr>adapter = example_full, calls = []\<rparr>)) = Inr example_identity
   \<and> Arn example_identity = Some ''arn:aws:iam::123456789012:user/dev''
   \<and> second_segment CHR '':'' ''arn:aws:iam::123456789012:user/dev'' = Some ''aws''
   \<and> (\<exists>info w'. getAccountInfo example_toolkit \<lparr>adapter = example_full, calls = []\<rparr> =
          (Inr info, w') \<and> partition info = Some ''aws'')"
proof -
  have h1: "getCallerIdentity example_toolkit
      (getRegion (adapter \<lparr>adapter = example_full, calls = []\<rparr>)) = Inr example_identity"
    by (simp add: example_toolkit_def)
  have h2: "Arn example_identity = Some ''arn:aws:iam::123456789012:user/dev''"
    by (simp add: example_identity_def)
  have seg: "second_segment CHR '':'' ''arn:aws:iam::123456789012:user/dev'' = Some ''aws''"
    by (simp add: second_segment_def)
  show ?thesis
    using getAccountInfo_partition_second_segment [OF h1 h2] h1 h2 seg by auto
qed

text \<open>
  Claim C5. \<^verbatim>\<open>getSdk\<close> branches on whether a cross-account role ARN is configured
  (\<^verbatim>\<open>provider.cfnRole\<close> is truthy). With the SDK provider obtained and the identity call
  resolved: when the role is configured, the result of \<^verbatim>\<open>getSdk\<close> is the outcome of the
  toolkit's role-assumption routine on exactly (role ARN, account id, region), and that
  call is the last one made; when it is not, the result is the outcome of the toolkit's
  session request for the resolved environment descriptor (stage, account id, region)
  in for-writing mode, and that call is the last one made.
\<close>

theorem getSdk_assumed_role_or_environment:
  assumes "js_member (serverless (adapter w)) ''service'' = Inr svc"
    and "js_member svc ''provider'' = Inr prov"
    and "js_member prov ''cfnRole'' = Inr cfnRole"
    and "getSdkProvider tk w = (Inr p, w1)"
    and "getCallerIdentity tk (getRegion (adapter w)) = Inr ident"
  shows "(truthy cfnRole \<longrightarrow>
            getSdk tk w =
              (withAssumedRole tk p cfnRole (Account ident) (getRegion (adapter w)),
               w1\<lparr>calls := calls w1 @
                    [GetCallerIdentity (getRegion (adapter w)),
                     WithAssumedRole p cfnRole (Account ident) (getRegion (adapter w))]\<rparr>))
         \<and> (\<not> truthy cfnRole \<longrightarrow>
            getSdk tk w =
              (forEnvironment tk p
                 \<lparr>name = getStage (adapter w), account = Account ident,
                  region = getRegion (adapter w)\<rparr> ForWriting,
               w1\<lparr>calls := calls w1 @
                    [GetCallerIdentity (getRegion (adapter w)),
                     ForEnvironment p
                       \<lparr>name = getStage (adapter w), account = Account ident,
                        region = getRegion (adapter w)\<rparr> ForWriting]\<rparr>))"
proof -
  have role: "getCfnRoleArn (adapter w) = Inr (js_or cfnRole JUndefined)"
    using assms(1-3) by (simp add: getCfnRoleArn_def)
  have same: "options (adapter w1) = options (adapter w)"
    "serverless (adapter w1) = serverless (adapter w)"
    using getSdkProvider_adapter [OF assms(4)] by simp_all
  have reg: "getRegion (adapter w1) = getRegion (adapter w)"
    using same by (rule getRegion_cong)
  have stg: "getStage (adapter w1) = getStage (adapter w)"
    using same by (rule getStage_cong)
  have ident1: "getCallerIdentity tk (getRegion (adapter w1)) = Inr ident"
    using assms(5) reg by simp
  show ?thesis
    using role assms(4) getAccountId_ok [OF ident1] getEnvironment_ok [OF ident1] reg stg
    by (simp add: getSdk_def bindA_def attempt_def read_def external_def js_or_def)
qed

theorem getSdk_assumed_role_or_environment_witness:
  "getSdk example_toolkit \<lparr>adapter = example_full, calls = []\<rparr> =
     (Inr ''assumed-role session'',
      \<lparr>adapter = example_full\<lparr>sdkProvider := Some 7\<rparr>,
       calls = [WithAwsCliCompatibleDefaults (JStr ''deployer''),
                GetCallerIdentity (JStr ''eu-west-1''),
                WithAssumedRole 7 (JStr ''arn:aws:iam::123456789012:role/deploy'')
                  (Some ''123456789012'') (JStr ''eu-west-1'')]\<rparr>)
   \<and> getSdk example_toolkit \<lparr>adapter = example_bare, calls = []\<rparr> =
     (Inr ''environment session'',
      \<lparr>adapter = example_bare\<lparr>sdkProvider := Some 7\<rparr>,
       calls = [WithAwsCliCompatibleDefaults JUndefined,
                GetCallerIdentity (JStr ''us-east-1''),
                ForEnvironment 7
                  \<lparr>name = JStr ''dev'', account = Some ''123456789012'',
                   region = JStr ''us-east-1''\<rparr> ForWriting]\<rparr>)"
proof -
  let ?wf = "\<lparr>adapter = example_full, calls = []\<rparr>"
  let ?svc = "js_prop (serverless (adapter ?wf)) ''service''"
  let ?prov = "js_prop ?svc ''provider''"
  have f1: "js_member (serverless (adapter ?wf)) ''service'' = Inr ?svc"
    by (simp add: example_full_def js_member_def)
  have f2: "js_member ?svc ''provider'' = Inr ?prov"
    by (simp add: example_full_def js_member_def)
  have f3: "js_member ?prov ''cfnRole'' = Inr (JStr ''arn:aws:iam::123456789012:role/deploy'')"
    by (simp add: example_full_def js_member_def)
  have fprofile: "getProfile example_full = JStr ''deployer''"
    by (simp add: getProfile_def getProfileSourceValue_def Let_def object_truthy_def example_full_def
        eval_defs)
  have f4: "getSdkProvider example_toolkit ?wf =
      (Inr 7, \<lparr>adapter = example_full\<lparr>sdkProvider := Some 7\<rparr>,
               calls = [WithAwsCliCompatibleDefaults (JStr ''deployer'')]\<rparr>)"
  proof -
    have fresh: "sdkProvider (adapter \<lparr>adapter = example_full, calls = []\<rparr>) = None"
      by (simp add: example_full_def)
    have "withAwsCliCompatibleDefaults example_toolkit
        (getProfile (adapter \<lparr>adapter = example_full, calls = []\<rparr>)) = Inr 7"
      by (simp add: example_toolkit_def)
    then show ?thesis
      using getSdkProvider_fresh [OF fresh, of example_toolkit] fprofile by simp
  qed
  have f5: "getCallerIdentity example_toolkit (getRegion (adapter ?wf)) = Inr example_identity"
    by (simp add: example_toolkit_def)
  have fregion: "getRegion example_full = JStr ''eu-west-1''"
    by (simp add: getRegion_def getRegionSourceValue_def example_full_def eval_defs)
  let ?wb = "\<lparr>adapter = example_bare, calls = []\<rparr>"
  let ?bsvc = "js_prop (serverless (adapter ?wb)) ''service''"
  let ?bprov = "js_prop ?bsvc ''provider''"
  have b1: "js_member (serverless (adapter ?wb)) ''service'' = Inr ?bsvc"
    by (simp add: example_bare_def js_member_def)
  have b2: "js_member ?bsvc ''provider'' = Inr ?bprov"
    by (simp add: example_bare_def js_member_def)
  have b3: "js_member ?bprov ''cfnRole'' = Inr JUndefined"
    by (simp add: example_bare_def js_member_def)
  have bprofile: "getProfile example_bare = JUndefined"
    by (simp add: getProfile_def getProfileSourceValue_def Let_def object_truthy_def example_bare_def
        eval_defs)
  have b4: "getSdkProvider example_toolkit ?wb =
      (Inr 7, \<lparr>adapter = example_bare\<lparr>sdkProvider := Some 7\<rparr>,
               calls = [WithAwsCliCompatibleDefaults JUndefined]\<rparr>)"
  proof -
    have fresh: "sdkProvider (adapter \<lparr>adapter = example_bare, calls = []\<rparr>) = None"
      by (simp add: example_bare_def)
    have "withAwsCliCompatibleDefaults example_toolkit
        (getProfile (adapter \<lparr>adapter = example_bare, calls = []\<rparr>)) = Inr 7"
      by (simp add: example_toolkit_def)
    then show ?thesis
      using getSdkProvider_fresh [OF fresh, of example_toolkit] bprofile by simp
  qed
  have b5: "getCallerIdentity example_toolkit (getRegion (adapter ?wb)) = Inr example_identity"
    by (simp add: example_toolkit_def)
  have bregion: "getRegion example_bare = JStr ''us-east-1''"
    by (simp add: getRegion_def getRegionSourceValue_def example_bare_def eval_defs)
  have bstage: "getStage example_bare = JStr ''dev''"
    by (simp add: getStage_def getStageSourceValue_def example_bare_def eval_defs)
  have tk: "withAssumedRole example_toolkit = (\<lambda>p roleArn acct reg. Inr ''assumed-role session'')"
    "forEnvironment example_toolkit = (\<lambda>p env mode. Inr ''environment session'')"
    by (simp_all add: example_toolkit_def)
  have acct: "Account example_identity = Some ''123456789012''"
    by (simp add: example_identity_def)
  show ?thesis
    using getSdk_assumed_role_or_environment [OF f1 f2 f3 f4 f5]
      getSdk_assumed_role_or_environment [OF b1 b2 b3 b4 b5]
    by (simp add: fregion bregion bstage tk acct)
qed

text \<open>
  Claim C6. The SDK-provider handle is constructed at most once per adapter instance.
  Whenever a call of \<^verbatim>\<open>getSdkProvider\<close> resolves with a handle: if the adapter held none
  before, this call constructed it, with one construction call for the resolved profile,
  and stored it; the next call returns the same handle and leaves the state, the log of
  outbound calls included, as it is; and so does every further call.
\<close>

theorem getSdkProvider_constructed_once:
  assumes "getSdkProvider tk w = (Inr h, w')"
  shows "sdkProvider (adapter w') = Some h
         \<and> (sdkProvider (adapter w) = None \<longrightarrow>
              withAwsCliCompatibleDefaults tk (getProfile (adapter w)) = Inr h
              \<and> w' = w\<lparr>adapter := (adapter w)\<lparr>sdkProvider := Some h\<rparr>,
                       calls := calls w @
                         [WithAwsCliCompatibleDefaults (getProfile (adapter w))]\<rparr>)
         \<and> getSdkProvider tk w' = (Inr h, w')
         \<and> repeat_getSdkProvider tk n w' = (replicate n (Inr h), w')"
proof -
  have memo: "sdkProvider (adapter w') = Some h"
    using assms by (rule getSdkProvider_memo)
  have first: "withAwsCliCompatibleDefaults tk (getProfile (adapter w)) = Inr h
      \<and> w' = w\<lparr>adapter := (adapter w)\<lparr>sdkProvider := Some h\<rparr>,
               calls := calls w @ [WithAwsCliCompatibleDefaults (getProfile (adapter w))]\<rparr>"
    if fresh: "sdkProvider (adapter w) = None"
    using assms unfolding getSdkProvider_fresh [OF fresh]
    by (cases "withAwsCliCompatibleDefaults tk (getProfile (adapter w))") auto
  show ?thesis
    using memo first getSdkProvider_cached [OF memo] repeat_cached [OF memo] by blast
qed

theorem getSdkProvider_constructed_once_witness:
  "sdkProvider (adapter \<lparr>adapter = example_full, calls = []\<rparr>) = None
   \<and> getSdkProvider example_toolkit \<lparr>adapter = example_full, calls = []\<rparr> =
       (Inr 7, \<lparr>adapter = example_full\<lparr>sdkProvider := Some 7\<rparr>,
                calls = [WithAwsCliCompatibleDefaults (JStr ''deployer'')]\<rparr>)
   \<and> repeat_getSdkProvider example_toolkit 3
       \<lparr>adapter = example_full\<lparr>sdkProvider := Some 7\<rparr>,
        calls = [WithAwsCliCompatibleDefaults (JStr ''deployer'')]\<rparr> =
       ([Inr 7, Inr 7, Inr 7],
        \<lparr>adapter = example_full\<lparr>sdkProvider := Some 7\<rparr>,
         calls = [WithAwsCliCompatibleDefaults (JStr ''deployer'')]\<rparr>)"
proof -
  have fresh: "sdkProvider (adapter \<lparr>adapter = example_full, calls = []\<rparr>) = None"
    by (simp add: example_full_def)
  have fprofile: "getProfile example_full = JStr ''deployer''"
    by (simp add: getProfile_def getProfileSourceValue_def Let_def object_truthy_def example_full_def
        eval_defs)
  have call: "getSdkProvider example_toolkit \<lparr>adapter = example_full, calls = []\<rparr> =
      (Inr 7, \<lparr>adapter = example_full\<lparr>sdkProvider := Some 7\<rparr>,
               calls = [WithAwsCliCompatibleDefaults (JStr ''deployer'')]\<rparr>)"
  proof -
    have fresh: "sdkProvider (adapter \<lparr>adapter = example_full, calls = []\<rparr>) = None"
      by (simp add: example_full_def)
    have "withAwsCliCompatibleDefaults example_toolkit
        (getProfile (adapter \<lparr>adapter = example_full, calls = []\<rparr>)) = Inr 7"
      by (simp add: example_toolkit_def)
    then show ?thesis
      using getSdkProvider_fresh [OF fresh, of example_toolkit] fprofile by simp
  qed
  have three: "replicate 3 (Inr 7 :: error + nat) = [Inr 7, Inr 7, Inr 7]"
    by (simp add: numeral_3_eq_3)
  have "repeat_getSdkProvider example_toolkit 3
       \<lparr>adapter = example_full\<lparr>sdkProvider := Some 7\<rparr>,
        calls = [WithAwsCliCompatibleDefaults (JStr ''deployer'')]\<rparr> =
       (replicate 3 (Inr 7),
        \<lparr>adapter = example_full\<lparr>sdkProvider := Some 7\<rparr>,
         calls = [WithAwsCliCompatibleDefaults (JStr ''deployer'')]\<rparr>)"
    using getSdkProvider_constructed_once [OF call, of 3] by blast
  then show ?thesis
    unfolding three using fresh call by blast
qed

end
